theory Spec2Isabelle
  imports
    Complex_Main
    "HOL-Library.List_Lexorder"
    "HOL-Library.Char_ord"
    "HOL-Library.AList"
    "HOL-Library.Sublist"
    "HOL-Library.Multiset"
begin

section \<open>CMCD manager of Shaka Player: a shallow embedding of \<^verbatim>\<open>lib/util/cmcd_manager.js\<close>\<close>

text \<open>
  Conventions of the embedding.
  \<^item> A private member \<^verbatim>\<open>name_\<close> of the class is written \<open>name'\<close> (an Isabelle name
    cannot end in an underscore).
  \<^item> A JavaScript string is a \<open>string\<close>: the list of its UTF-8 bytes. On strings without
    characters beyond U+D7FF the order of \<^verbatim>\<open>Array.prototype.sort\<close> (UTF-16 code units)
    is the lexicographic order of the bytes, which is the order of \<open>string\<close> here.
  \<^item> A JavaScript number is a \<open>jsnum\<close>: \<open>NaN\<close> or a finite value, kept as a rational.
    The infinities, the negative zero and the rounding error of double arithmetic are not
    modelled.
  \<^item> A CMCD data object is an association list from keys to values, in insertion order;
    reading a key that is absent gives \<open>JUndefined\<close>, writing a key keeps its place or
    appends it (\<open>AList.update\<close>). Keys are the property names of the \<^verbatim>\<open>Data\<close> typedef
    or other plain names; names that \<^verbatim>\<open>Object.prototype\<close> defines are not modelled.
\<close>

subsection \<open>Values\<close>

datatype jsnum = NaN | Fin rat

datatype jsval =
    JUndefined
  | JNull
  | JBool bool
  | JNum jsnum
  | JStr string
  | JSym "string option"

type_synonym data = "(string \<times> jsval) list"

definition object_keys :: "data \<Rightarrow> string list" where
  "object_keys data = map fst data"

definition get :: "data \<Rightarrow> string \<Rightarrow> jsval" where
  "get data key = (case map_of data key of None \<Rightarrow> JUndefined | Some v \<Rightarrow> v)"

text \<open>\<^verbatim>\<open>Object.assign(target, source)\<close>: the keys of the source are written in their order.\<close>

definition object_assign :: "('k \<times> 'v) list \<Rightarrow> ('k \<times> 'v) list \<Rightarrow> ('k \<times> 'v) list" where
  "object_assign target source = fold (\<lambda>(k, v) t. AList.update k v t) source target"

subsection \<open>Numbers\<close>

fun num_mul :: "jsnum \<Rightarrow> jsnum \<Rightarrow> jsnum" where
  "num_mul (Fin a) (Fin b) = Fin (a * b)"
| "num_mul _ _ = NaN"

text \<open>The code divides by the constants 100 and 1000 only; a zero divisor gives \<open>NaN\<close> here.\<close>

fun num_div :: "jsnum \<Rightarrow> jsnum \<Rightarrow> jsnum" where
  "num_div (Fin a) (Fin b) = (if b = 0 then NaN else Fin (a / b))"
| "num_div _ _ = NaN"

fun num_sub :: "jsnum \<Rightarrow> jsnum \<Rightarrow> jsnum" where
  "num_sub (Fin a) (Fin b) = Fin (a - b)"
| "num_sub _ _ = NaN"

fun num_le :: "jsnum \<Rightarrow> jsnum \<Rightarrow> bool" where
  "num_le (Fin a) (Fin b) = (a \<le> b)"
| "num_le _ _ = False"

fun num_gt :: "jsnum \<Rightarrow> jsnum \<Rightarrow> bool" where
  "num_gt (Fin a) (Fin b) = (a > b)"
| "num_gt _ _ = False"

text \<open>\<^verbatim>\<open>Math.round\<close>: the nearest integer, a half rounded up.\<close>

fun math_round :: "jsnum \<Rightarrow> jsnum" where
  "math_round NaN = NaN"
| "math_round (Fin q) = Fin (of_int \<lfloor>q + 1 / 2\<rfloor>)"

text \<open>
  \<^verbatim>\<open>ToNumber\<close>. The \<^verbatim>\<open>Data\<close> typedef gives every key with a numeric formatter the
  type number, so a formatter meets no string and no symbol; on these the model answers
  \<open>NaN\<close> (JavaScript would parse the string, and throw on the symbol).
\<close>

fun to_number :: "jsval \<Rightarrow> jsnum" where
  "to_number JUndefined = NaN"
| "to_number JNull = Fin 0"
| "to_number (JBool b) = Fin (if b then 1 else 0)"
| "to_number (JNum n) = n"
| "to_number (JStr s) = NaN"
| "to_number (JSym d) = NaN"

subsection \<open>Strings\<close>

definition dquote :: char where
  "dquote = CHR 0x22"

definition digit_char :: "nat \<Rightarrow> char" where
  "digit_char n = ''0123456789ABCDEF'' ! n"

fun digits :: "nat \<Rightarrow> string" where
  "digits n = (if n < 10 then [digit_char n] else digits (n div 10) @ [digit_char (n mod 10)])"

declare digits.simps [simp del]

text \<open>
  The digits after the decimal point of \<open>r / d\<close> (\<open>r < d\<close>), by long division, at most
  \<open>fuel\<close> of them.
\<close>

fun frac_digits :: "nat \<Rightarrow> nat \<Rightarrow> nat \<Rightarrow> string" where
  "frac_digits 0 r d = []"
| "frac_digits (Suc fuel) r d =
     (if r = 0 then [] else digit_char ((10 * r) div d) # frac_digits fuel ((10 * r) mod d) d)"

text \<open>
  \<^verbatim>\<open>Number::toString\<close>. It is the string JavaScript gives for an integer below
  \<open>10\<^sup>2\<^sup>1\<close> in magnitude and for a decimal fraction of at most 15 significant digits that
  is not below \<open>10\<^sup>-\<^sup>6\<close> in magnitude; the exponent notation is not modelled.
\<close>

definition number_to_string :: "jsnum \<Rightarrow> string" where
  "number_to_string x =
     (case x of
        NaN \<Rightarrow> ''NaN''
      | Fin q \<Rightarrow>
          (let a = fst (quotient_of q);
               d = nat (snd (quotient_of q));
               n = nat \<bar>a\<bar>
           in (if a < 0 then ''-'' else '''') @ digits (n div d) @
              (if n mod d = 0 then '''' else ''.'' @ frac_digits 17 (n mod d) d)))"

text \<open>
  \<^verbatim>\<open>ToString\<close>, as a template literal applies it. The serializer passes a symbol to
  it only under the key \<^verbatim>\<open>nor\<close>, which the \<^verbatim>\<open>Data\<close> typedef types as a string;
  JavaScript throws there.
\<close>

fun to_string :: "jsval \<Rightarrow> string" where
  "to_string JUndefined = ''undefined''"
| "to_string JNull = ''null''"
| "to_string (JBool b) = (if b then ''true'' else ''false'')"
| "to_string (JNum n) = number_to_string n"
| "to_string (JStr s) = s"
| "to_string (JSym d) = (case d of None \<Rightarrow> ''Symbol()'' | Some s \<Rightarrow> ''Symbol('' @ s @ '')'')"

text \<open>\<^verbatim>\<open>s.includes(sub)\<close>: \<open>sub\<close> occurs in \<open>s\<close> at some position.\<close>

fun str_includes :: "string \<Rightarrow> string \<Rightarrow> bool" where
  "str_includes [] sub = (sub = [])"
| "str_includes (c # cs) sub = (prefix sub (c # cs) \<or> str_includes cs sub)"

text \<open>\<^verbatim>\<open>s.replace(/c/g, r)\<close> for a single character \<open>c\<close>.\<close>

definition replace_all :: "char \<Rightarrow> string \<Rightarrow> string \<Rightarrow> string" where
  "replace_all c r s = concat (map (\<lambda>x. if x = c then r else [x]) s)"

text \<open>\<^verbatim>\<open>parts.join(sep)\<close>.\<close>

fun join :: "string \<Rightarrow> string list \<Rightarrow> string" where
  "join sep [] = []"
| "join sep [x] = x"
| "join sep (x # y # ys) = x @ sep @ join sep (y # ys)"

text \<open>
  \<^verbatim>\<open>encodeURIComponent\<close>: every byte but the unreserved characters becomes \<^verbatim>\<open>%XX\<close>.
\<close>

definition uri_unreserved :: "char \<Rightarrow> bool" where
  "uri_unreserved c \<longleftrightarrow>
     c \<in> set ''ABCDEFGHIJKLMNOPQRSTUVWXYZabcdefghijklmnopqrstuvwxyz0123456789-_.!~*()''
     \<or> c = CHR 0x27"

definition percent_encode :: "char \<Rightarrow> string" where
  "percent_encode c =
     [CHR ''%'', digit_char (of_char c div 16), digit_char (of_char c mod 16)]"

definition encodeURIComponent :: "string \<Rightarrow> string" where
  "encodeURIComponent s =
     concat (map (\<lambda>c. if uri_unreserved c then [c] else percent_encode c) s)"

subsection \<open>The serializer\<close>

text \<open>
  \<^verbatim>\<open>const isValid = (value) =>
    !Number.isNaN(value) && value != null && value !== '' && value !== false;\<close>
\<close>

definition isValid :: "jsval \<Rightarrow> bool" where
  "isValid value \<longleftrightarrow>
     value \<noteq> JNum NaN \<and> value \<noteq> JUndefined \<and> value \<noteq> JNull
     \<and> value \<noteq> JStr [] \<and> value \<noteq> JBool False"

definition toRounded :: "jsval \<Rightarrow> jsval" where
  "toRounded value = JNum (math_round (to_number value))"

definition toHundred :: "jsval \<Rightarrow> jsval" where
  "toHundred value =
     JNum (num_mul (to_number (toRounded (JNum (num_div (to_number value) (Fin 100)))))
       (Fin 100))"

definition toUrlSafe :: "jsval \<Rightarrow> jsval" where
  "toUrlSafe value = JStr (encodeURIComponent (to_string value))"

definition formatters :: "string \<Rightarrow> (jsval \<Rightarrow> jsval) option" where
  "formatters key =
     (if key = ''br'' then Some toRounded
      else if key = ''d'' then Some toRounded
      else if key = ''bl'' then Some toHundred
      else if key = ''dl'' then Some toHundred
      else if key = ''mtp'' then Some toHundred
      else if key = ''nor'' then Some toUrlSafe
      else if key = ''rtp'' then Some toHundred
      else if key = ''tb'' then Some toRounded
      else None)"

text \<open>
  \<^verbatim>\<open>const formatter = formatters[key]; if (formatter) { value = formatter(value); }\<close>
\<close>

definition apply_formatter :: "string \<Rightarrow> jsval \<Rightarrow> jsval" where
  "apply_formatter key value =
     (case formatters key of None \<Rightarrow> value | Some formatter \<Rightarrow> formatter value)"

text \<open>The body of the loop after the two \<^verbatim>\<open>continue\<close> tests: one key/value pair.\<close>

definition serialize_pair :: "string \<Rightarrow> jsval \<Rightarrow> string" where
  "serialize_pair key value0 =
     (let value = apply_formatter key value0
      in case value of
           JStr s \<Rightarrow>
             (if key \<noteq> ''ot'' \<and> key \<noteq> ''sf'' \<and> key \<noteq> ''st''
              then key @ ''='' @ [dquote] @ replace_all dquote [dquote] s @ [dquote]
              else key @ ''='' @ to_string value)
         | JBool b \<Rightarrow> key
         | JSym d \<Rightarrow> key @ ''='' @ (case d of None \<Rightarrow> ''undefined'' | Some s \<Rightarrow> s)
         | _ \<Rightarrow> key @ ''='' @ to_string value)"

text \<open>The loop over the sorted keys; \<open>results\<close> is the list it returns.\<close>

fun serialize_loop :: "data \<Rightarrow> string list \<Rightarrow> string list" where
  "serialize_loop data [] = []"
| "serialize_loop data (key # keys) =
     (let value = get data key
      in if \<not> isValid value then serialize_loop data keys
         else if key = ''v'' \<and> value = JNum (Fin 1) then serialize_loop data keys
         else if key = ''pr'' \<and> value = JNum (Fin 1) then serialize_loop data keys
         else serialize_pair key value # serialize_loop data keys)"

definition serialize_results :: "data \<Rightarrow> string list" where
  "serialize_results data = serialize_loop data (sort (object_keys data))"

definition serialize :: "data \<Rightarrow> string" where
  "serialize data = join '','' (serialize_results data)"

text \<open>
  The types of the \<^verbatim>\<open>Data\<close> typedef: the type the JSDoc of the file gives each key
  (every property may be undefined). A key the typedef does not name is not constrained.
\<close>

definition Data_typedef :: "string \<Rightarrow> jsval \<Rightarrow> bool" where
  "Data_typedef key value =
     (if key \<in> set [''br'', ''d'', ''tb'', ''bl'', ''dl'', ''mtp'', ''pr'', ''v'', ''rtp'']
      then (case value of JNum n \<Rightarrow> True | JUndefined \<Rightarrow> True | _ \<Rightarrow> False)
      else if key \<in> set [''nor'', ''nrr'', ''cid'', ''sid'', ''ot'', ''sf'', ''st'']
      then (case value of JStr s \<Rightarrow> True | JUndefined \<Rightarrow> True | _ \<Rightarrow> False)
      else if key \<in> set [''su'', ''bs'']
      then (case value of JBool b \<Rightarrow> True | JUndefined \<Rightarrow> True | _ \<Rightarrow> False)
      else True)"

text \<open>The key of an output token: what stands before its first \<^verbatim>\<open>=\<close>.\<close>

definition token_key :: "string \<Rightarrow> string" where
  "token_key token = takeWhile (\<lambda>c. c \<noteq> CHR ''='') token"

subsection \<open>Headers and query\<close>

definition headerNames :: "string list" where
  "headerNames = [''Object'', ''Request'', ''Session'', ''Status'']"

definition headerMap :: "string \<Rightarrow> nat option" where
  "headerMap key =
     (if key \<in> set [''br'', ''d'', ''ot'', ''tb''] then Some 0
      else if key \<in> set [''bl'', ''dl'', ''mtp'', ''nor'', ''nrr'', ''su''] then Some 1
      else if key \<in> set [''cid'', ''pr'', ''sf'', ''sid'', ''st'', ''v''] then Some 2
      else if key \<in> set [''bs'', ''rtp''] then Some 3
      else None)"

text \<open>The first loop of \<^verbatim>\<open>toHeaders\<close>: every key goes to its group.\<close>

fun header_groups :: "data \<Rightarrow> string list \<Rightarrow> data list \<Rightarrow> data list" where
  "header_groups data [] headerGroups = headerGroups"
| "header_groups data (key # keys) headerGroups =
     (let index = (case headerMap key of Some i \<Rightarrow> i | None \<Rightarrow> 1)
      in header_groups data keys
           (headerGroups[index := AList.update key (get data key) (headerGroups ! index)]))"

text \<open>The second loop: a group that serializes to the empty string gives no header.\<close>

fun header_fields :: "data list \<Rightarrow> string list \<Rightarrow> (string \<times> string) list" where
  "header_fields (g # gs) (name # names) =
     (let value = serialize g
      in if value \<noteq> [] then (''CMCD-'' @ name, value) # header_fields gs names
         else header_fields gs names)"
| "header_fields _ _ = []"

definition toHeaders :: "data \<Rightarrow> (string \<times> string) list" where
  "toHeaders data =
     header_fields (header_groups data (object_keys data) [[], [], [], []]) headerNames"

definition toQuery :: "data \<Rightarrow> string" where
  "toQuery data = ''CMCD='' @ encodeURIComponent (serialize data)"

definition appendQueryToUri :: "string \<Rightarrow> string \<Rightarrow> string" where
  "appendQueryToUri uri query =
     (if query = [] then uri
      else if str_includes uri ''offline:'' then uri
      else uri @ (if str_includes uri ''?'' then ''&'' else ''?'') @ query)"

text \<open>
  The spec's notion of a URI that denotes an offline resource: its scheme is
  \<^verbatim>\<open>offline\<close>, that is, the URI starts with \<^verbatim>\<open>offline:\<close>.
\<close>

definition offline_scheme :: "string \<Rightarrow> bool" where
  "offline_scheme uri = prefix ''offline:'' uri"

subsection \<open>The player, the configuration and the request\<close>

text \<open>
  Modelled from the spec: the extern types \<^verbatim>\<open>shaka.extern.BufferedInfo\<close>,
  \<^verbatim>\<open>shaka.extern.Manifest\<close>, \<^verbatim>\<open>shaka.extern.CmcdConfiguration\<close> and
  \<^verbatim>\<open>shaka.extern.Request\<close> are declared outside this file. The records below have the
  fields the code reads. The player interface is the snapshot of what its six functions
  return at the time of a call.
\<close>

record buffered_range =
  range_start :: jsnum
  range_end :: jsnum

record buffered_info =
  info_total :: "buffered_range list"
  info_audio :: "buffered_range list"
  info_video :: "buffered_range list"
  info_text :: "buffered_range list"

text \<open>A stream's bandwidth is a number or undefined (\<open>None\<close>).\<close>

record stream =
  stream_bandwidth :: "jsnum option"

text \<open>A variant's audio and video streams may be null (\<open>None\<close>).\<close>

record variant =
  variant_audio :: "stream option"
  variant_video :: "stream option"
  variant_bandwidth :: jsnum

record manifest =
  variants :: "variant list"
  textStreams :: "stream list"

record player_interface =
  getBandwidthEstimate :: jsnum
  getBufferedInfo :: buffered_info
  getCurrentTime :: jsnum
  getManifest :: "manifest option"
  getPlaybackRate :: jsnum
  isLive :: bool

record cmcd_config =
  enabled :: bool
  useHeaders :: bool
  sessionId :: string
  contentId :: string

record request =
  uris :: "string list"
  headers :: "(string \<times> string) list"

record segment_info =
  segment_type :: string
  segment_init :: bool
  segment_duration :: jsnum
  segment_mimeType :: string
  segment_codecs :: string
  segment_bandwidth :: "jsnum option"

record manifest_info =
  manifest_format :: string

subsection \<open>The enumerations and the version\<close>

definition MANIFEST :: string where "MANIFEST = ''m''"
definition AUDIO :: string where "AUDIO = ''a''"
definition VIDEO :: string where "VIDEO = ''v''"
definition MUXED :: string where "MUXED = ''av''"
definition INIT :: string where "INIT = ''i''"
definition CAPTION :: string where "CAPTION = ''c''"
definition TIMED_TEXT :: string where "TIMED_TEXT = ''tt''"
definition KEY :: string where "KEY = ''k''"
definition OTHER :: string where "OTHER = ''o''"

definition VOD :: string where "VOD = ''v''"
definition LIVE :: string where "LIVE = ''l''"

definition Version :: jsnum where "Version = Fin 1"

subsection \<open>The manager\<close>

record manager =
  playerInterface' :: player_interface
  config' :: cmcd_config
  sid' :: string
  sf' :: "string option"
  playbackStarted' :: bool
  buffering' :: bool
  starved' :: bool

text \<open>
  The constructor; \<open>uuid\<close> is what \<^verbatim>\<open>window.crypto.randomUUID()\<close> returns.
\<close>

definition constructor :: "player_interface \<Rightarrow> cmcd_config \<Rightarrow> string \<Rightarrow> manager" where
  "constructor playerInterface config uuid =
     \<lparr>playerInterface' = playerInterface,
      config' = config,
      sid' = (if sessionId config \<noteq> [] then sessionId config else uuid),
      sf' = None,
      playbackStarted' = False,
      buffering' = True,
      starved' = False\<rparr>"

definition setBuffering :: "manager \<Rightarrow> bool \<Rightarrow> manager" where
  "setBuffering m buffering =
     (let m1 = (if \<not> buffering \<and> \<not> playbackStarted' m
                then m\<lparr>playbackStarted' := True\<rparr> else m);
          m2 = (if playbackStarted' m1 \<and> buffering
                then m1\<lparr>starved' := True\<rparr> else m1)
      in m2\<lparr>buffering' := buffering\<rparr>)"

definition createData' :: "manager \<Rightarrow> data" where
  "createData' m =
     [(''v'', JNum Version),
      (''sf'', (case sf' m of None \<Rightarrow> JUndefined | Some f \<Rightarrow> JStr f)),
      (''sid'', JStr (sid' m)),
      (''cid'', JStr (contentId (config' m))),
      (''mtp'', JNum (num_div (getBandwidthEstimate (playerInterface' m)) (Fin 1000)))]"

text \<open>
  \<^verbatim>\<open>const isVideo = data.ot === ObjectType.VIDEO || data.ot === ObjectType.MUXED;\<close>
\<close>

definition isVideo :: "data \<Rightarrow> bool" where
  "isVideo data \<longleftrightarrow> get data ''ot'' = JStr VIDEO \<or> get data ''ot'' = JStr MUXED"

text \<open>
  \<^verbatim>\<open>apply_(request, data, useHeaders)\<close> writes to the manager, to the request and to the
  data object; the three are returned.
\<close>

definition apply' :: "manager \<Rightarrow> request \<Rightarrow> data \<Rightarrow> bool \<Rightarrow> manager \<times> request \<times> data" where
  "apply' m request data0 useHeaders_arg =
     (if \<not> enabled (config' m) then (m, request, data0)
      else
        let data1 = object_assign data0 (createData' m);
            data2 = AList.update ''pr'' (JNum (getPlaybackRate (playerInterface' m))) data1;
            consumed = (starved' m \<and> isVideo data2);
            data3 = (if consumed
                     then AList.update ''su'' (JBool True) (AList.update ''bs'' (JBool True) data2)
                     else data2);
            m1 = (if consumed then m\<lparr>starved' := False\<rparr> else m);
            data4 = (if get data3 ''su'' = JUndefined \<or> get data3 ''su'' = JNull
                     then AList.update ''su'' (JBool (buffering' m1)) data3
                     else data3)
        in if useHeaders_arg then
             (let hs = toHeaders data4
              in if hs = [] then (m1, request, data4)
                 else (m1, request\<lparr>headers := object_assign (headers request) hs\<rparr>, data4))
           else
             (let query = toQuery data4
              in if query = [] then (m1, request, data4)
                 else (m1,
                       request\<lparr>uris := map (\<lambda>uri. appendQueryToUri uri query) (uris request)\<rparr>,
                       data4)))"

subsection \<open>Deriving the fields of a segment request\<close>

datatype error = TypeError

definition getObjectType' :: "segment_info \<Rightarrow> jsval" where
  "getObjectType' segmentInfo =
     (let type = segment_type segmentInfo
      in if segment_init segmentInfo then JStr INIT
         else if type = ''video'' then
           (if str_includes (segment_codecs segmentInfo) '','' then JStr MUXED else JStr VIDEO)
         else if type = ''audio'' then JStr AUDIO
         else if type = ''text'' then
           (if segment_mimeType segmentInfo = ''application/mp4'' then JStr TIMED_TEXT
            else JStr CAPTION)
         else JUndefined)"

definition getObjectTypeFromMimeType' :: "string \<Rightarrow> jsval" where
  "getObjectTypeFromMimeType' mimeType =
     (if mimeType = ''video/webm'' \<or> mimeType = ''video/mp4'' then JStr MUXED
      else if mimeType = ''application/x-mpegurl'' then JStr MANIFEST
      else JUndefined)"

text \<open>
  \<^verbatim>\<open>getBufferedInfo()[type]\<close>: the buffered info has the four properties below; any other
  name gives undefined (\<open>None\<close>), and reading its length throws.
\<close>

definition buffered_ranges :: "buffered_info \<Rightarrow> string \<Rightarrow> buffered_range list option" where
  "buffered_ranges info type =
     (if type = ''total'' then Some (info_total info)
      else if type = ''audio'' then Some (info_audio info)
      else if type = ''video'' then Some (info_video info)
      else if type = ''text'' then Some (info_text info)
      else None)"

definition getBufferLength' :: "manager \<Rightarrow> string \<Rightarrow> error + jsnum" where
  "getBufferLength' m type =
     (case buffered_ranges (getBufferedInfo (playerInterface' m)) type of
        None \<Rightarrow> Inl TypeError
      | Some ranges \<Rightarrow>
          (if ranges = [] then Inr NaN
           else
             let start = getCurrentTime (playerInterface' m)
             in case find (\<lambda>r. num_le (range_start r) start \<and> num_le start (range_end r)) ranges of
                  None \<Rightarrow> Inr NaN
                | Some r \<Rightarrow> Inr (num_mul (num_sub (range_end r) start) (Fin 1000))))"

definition getStreamType' :: "manager \<Rightarrow> string" where
  "getStreamType' m = (if isLive (playerInterface' m) then LIVE else VOD)"

text \<open>
  What \<^verbatim>\<open>getTopBandwidth_\<close> iterates over: the variants of the manifest, or its text
  streams. \<^verbatim>\<open>variant[type] || variant\<close> is the variant's stream of that type when it has
  one, otherwise the element itself; a text stream has no property named after a type.
\<close>

datatype track = Variant variant | Stream stream

fun stream_or_self :: "track \<Rightarrow> string \<Rightarrow> track" where
  "stream_or_self (Variant v) type =
     (if type = ''audio'' then (case variant_audio v of None \<Rightarrow> Variant v | Some s \<Rightarrow> Stream s)
      else if type = ''video'' then (case variant_video v of None \<Rightarrow> Variant v | Some s \<Rightarrow> Stream s)
      else Variant v)"
| "stream_or_self (Stream s) type = Stream s"

text \<open>\<^verbatim>\<open>.bandwidth\<close> as a number: undefined compares and divides as \<open>NaN\<close>.\<close>

fun track_bandwidth :: "track \<Rightarrow> jsnum" where
  "track_bandwidth (Variant v) = variant_bandwidth v"
| "track_bandwidth (Stream s) = (case stream_bandwidth s of None \<Rightarrow> NaN | Some b \<Rightarrow> b)"

fun top_loop :: "string \<Rightarrow> track list \<Rightarrow> track \<Rightarrow> track" where
  "top_loop type [] top_track = top_track"
| "top_loop type (variant # rest) top_track =
     (let s = stream_or_self variant type
      in top_loop type rest
           (if num_gt (track_bandwidth s) (track_bandwidth top_track) then s else top_track))"

definition getTopBandwidth' :: "manager \<Rightarrow> string \<Rightarrow> error + jsnum" where
  "getTopBandwidth' m type =
     (case getManifest (playerInterface' m) of
        None \<Rightarrow> Inr NaN
      | Some manifest \<Rightarrow>
          (let vs = (if type = ''text'' then map Stream (textStreams manifest)
                     else map Variant (variants manifest))
           in case vs of
                [] \<Rightarrow> Inl TypeError
              | v0 # _ \<Rightarrow> Inr (track_bandwidth (top_loop type vs (stream_or_self v0 type)))))"

subsection \<open>The entry points\<close>

text \<open>
  Every entry point catches what its body throws and logs a warning; the log is not part
  of the model, so a caught exception leaves the manager and the request (or the URI) as they
  were when it was thrown.
\<close>

definition applyManifestData :: "manager \<Rightarrow> request \<Rightarrow> manifest_info \<Rightarrow> manager \<times> request" where
  "applyManifestData m request manifestInfo =
     (if \<not> enabled (config' m) then (m, request)
      else
        let m1 = m\<lparr>sf' := Some (manifest_format manifestInfo)\<rparr>;
            (m2, request2, data) =
              apply' m1 request
                [(''ot'', JStr MANIFEST), (''su'', JBool (\<not> playbackStarted' m1))]
                (useHeaders (config' m1))
        in (m2, request2))"

text \<open>The data object of a segment request, up to the call of \<^verbatim>\<open>apply_\<close>.\<close>

definition segment_data :: "manager \<Rightarrow> segment_info \<Rightarrow> error + data" where
  "segment_data m segmentInfo =
     (let data0 = [(''d'', JNum (num_mul (segment_duration segmentInfo) (Fin 1000))),
                   (''st'', JStr (getStreamType' m))];
          data1 = AList.update ''ot'' (getObjectType' segmentInfo) data0;
          isMedia = (get data1 ''ot'' = JStr VIDEO \<or> get data1 ''ot'' = JStr AUDIO
                     \<or> get data1 ''ot'' = JStr MUXED \<or> get data1 ''ot'' = JStr TIMED_TEXT)
      in case (if isMedia
               then (case getBufferLength' m (segment_type segmentInfo) of
                       Inl e \<Rightarrow> Inl e
                     | Inr bl \<Rightarrow> Inr (AList.update ''bl'' (JNum bl) data1))
               else Inr data1) of
           Inl e \<Rightarrow> Inl e
         | Inr data2 \<Rightarrow>
             (let data3 =
                    (case segment_bandwidth segmentInfo of
                       None \<Rightarrow> data2
                     | Some b \<Rightarrow>
                         (if b \<noteq> NaN \<and> b \<noteq> Fin 0
                          then AList.update ''br'' (JNum (num_div b (Fin 1000))) data2
                          else data2))
              in case getTopBandwidth' m (segment_type segmentInfo) of
                   Inl e \<Rightarrow> Inl e
                 | Inr tb \<Rightarrow> Inr (AList.update ''tb'' (JNum (num_div tb (Fin 1000))) data3)))"

definition applySegmentData :: "manager \<Rightarrow> request \<Rightarrow> segment_info \<Rightarrow> manager \<times> request" where
  "applySegmentData m request segmentInfo =
     (if \<not> enabled (config' m) then (m, request)
      else
        case segment_data m segmentInfo of
          Inl e \<Rightarrow> (m, request)
        | Inr data \<Rightarrow>
            (let (m1, request1, data1) = apply' m request data (useHeaders (config' m))
             in (m1, request1)))"

definition applyTextData :: "manager \<Rightarrow> request \<Rightarrow> manager \<times> request" where
  "applyTextData m request =
     (let (m1, request1, data) =
            apply' m request [(''ot'', JStr CAPTION), (''su'', JBool True)]
              (useHeaders (config' m))
      in (m1, request1))"

definition appendSrcData :: "manager \<Rightarrow> string \<Rightarrow> string \<Rightarrow> string" where
  "appendSrcData m uri mimeType =
     (if \<not> enabled (config' m) then uri
      else
        let data0 = createData' m;
            data1 = AList.update ''ot'' (getObjectTypeFromMimeType' mimeType) data0;
            data2 = AList.update ''su'' (JBool True) data1;
            query = toQuery data2
        in appendQueryToUri uri query)"

definition appendTextTrackData :: "manager \<Rightarrow> string \<Rightarrow> string" where
  "appendTextTrackData m uri =
     (if \<not> enabled (config' m) then uri
      else
        let data0 = createData' m;
            data1 = AList.update ''ot'' (JStr CAPTION) data0;
            data2 = AList.update ''su'' (JBool True) data1;
            query = toQuery data2
        in appendQueryToUri uri query)"

subsection \<open>A player, a configuration and requests to run the code on\<close>

definition example_player :: player_interface where
  "example_player =
     \<lparr>getBandwidthEstimate = Fin 5000000,
      getBufferedInfo =
        \<lparr>info_total = [], info_audio = [],
         info_video = [\<lparr>range_start = Fin 0, range_end = Fin 5\<rparr>],
         info_text = []\<rparr>,
      getCurrentTime = Fin 3,
      getManifest = None,
      getPlaybackRate = Fin 1,
      isLive = False\<rparr>"

definition example_config :: cmcd_config where
  "example_config =
     \<lparr>enabled = True, useHeaders = True, sessionId = ''s1'', contentId = ''c1''\<rparr>"

definition example_request :: request where
  "example_request = \<lparr>uris = [''http://a/b''], headers = []\<rparr>"

definition video_segment :: segment_info where
  "video_segment =
     \<lparr>segment_type = ''video'', segment_init = False, segment_duration = Fin 4,
      segment_mimeType = ''video/mp4'', segment_codecs = ''avc1'',
      segment_bandwidth = Some (Fin 1234567)\<rparr>"

definition example_manager :: manager where
  "example_manager = constructor example_player example_config ''uuid''"

text \<open>The manager after playback has started and the buffer has then run empty.\<close>

definition starved_manager :: manager where
  "starved_manager = setBuffering (setBuffering example_manager False) True"

section \<open>Properties\<close>

subsection \<open>Substrings\<close>

lemma str_includes_sublist: "str_includes s sub = sublist sub s"
  by (induction s) (simp_all add: sublist_Cons_right)

lemma str_includes_iff: "str_includes s sub \<longleftrightarrow> (\<exists>pre post. s = pre @ sub @ post)"
  by (simp add: str_includes_sublist sublist_def)

lemma str_includes_char: "str_includes s [c] \<longleftrightarrow> c \<in> set s"
  by (induction s) auto

subsection \<open>Appending the query to a URI\<close>

text \<open>
  C7, as the spec states it, fails: the spec leaves a URI unchanged when it denotes an
  offline resource (its scheme is \<^verbatim>\<open>offline\<close>) and appends the query otherwise. The URI
  \<^verbatim>\<open>http://a/b?x=offline:1\<close> has the scheme \<^verbatim>\<open>http\<close> and the query is not empty, yet
  the code returns the URI unchanged and not \<^verbatim>\<open>http://a/b?x=offline:1&CMCD=foo\<close>.
\<close>

theorem appendQueryToUri_spec_counterexample:
  "''CMCD=foo'' \<noteq> [] \<and> \<not> offline_scheme ''http://a/b?x=offline:1''
   \<and> appendQueryToUri ''http://a/b?x=offline:1'' ''CMCD=foo'' = ''http://a/b?x=offline:1''
   \<and> appendQueryToUri ''http://a/b?x=offline:1'' ''CMCD=foo''
       \<noteq> ''http://a/b?x=offline:1&CMCD=foo''"
  by (simp add: appendQueryToUri_def offline_scheme_def)

text \<open>
  C7, amended: \<^verbatim>\<open>appendQueryToUri\<close> returns the URI unchanged if the query is empty or the
  URI contains \<^verbatim>\<open>offline:\<close> at any position; otherwise it appends the query after
  \<^verbatim>\<open>&\<close> if the URI contains a \<^verbatim>\<open>?\<close> and after \<^verbatim>\<open>?\<close> if it does not. The two
  examples of the spec are instances.
\<close>

theorem appendQueryToUri_cases:
  "appendQueryToUri uri query =
     (if query = [] \<or> (\<exists>pre post. uri = pre @ ''offline:'' @ post) then uri
      else if CHR ''?'' \<in> set uri then uri @ ''&'' @ query
      else uri @ ''?'' @ query)
   \<and> appendQueryToUri ''http://a/b?x=1'' ''CMCD=foo'' = ''http://a/b?x=1&CMCD=foo''
   \<and> appendQueryToUri ''http://a/b'' ''CMCD=foo'' = ''http://a/b?CMCD=foo''"
proof -
  have "appendQueryToUri uri query =
     (if query = [] \<or> (\<exists>pre post. uri = pre @ ''offline:'' @ post) then uri
      else if CHR ''?'' \<in> set uri then uri @ ''&'' @ query
      else uri @ ''?'' @ query)"
    unfolding appendQueryToUri_def str_includes_iff [of uri "''offline:''"]
      str_includes_char [of uri "CHR ''?''"]
    by simp
  moreover have "appendQueryToUri ''http://a/b?x=1'' ''CMCD=foo'' = ''http://a/b?x=1&CMCD=foo''"
    by (simp add: appendQueryToUri_def)
  moreover have "appendQueryToUri ''http://a/b'' ''CMCD=foo'' = ''http://a/b?CMCD=foo''"
    by (simp add: appendQueryToUri_def)
  ultimately show ?thesis by blast
qed

text \<open>
  C9: for a query that is not empty, \<^verbatim>\<open>appendQueryToUri\<close> returns the URI unchanged
  whenever \<^verbatim>\<open>offline:\<close> occurs anywhere in it, whatever its scheme.
\<close>

theorem appendQueryToUri_offline_anywhere:
  assumes "query \<noteq> []" and "\<exists>pre post. uri = pre @ ''offline:'' @ post"
  shows "appendQueryToUri uri query = uri"
  using assms by (simp add: appendQueryToUri_def str_includes_iff)

theorem appendQueryToUri_offline_anywhere_witness:
  "''CMCD=foo'' \<noteq> []
   \<and> (\<exists>pre post. ''http://a/b?x=offline:1'' = pre @ ''offline:'' @ post)
   \<and> \<not> offline_scheme ''http://a/b?x=offline:1''
   \<and> appendQueryToUri ''http://a/b?x=offline:1'' ''CMCD=foo'' = ''http://a/b?x=offline:1''"
proof -
  have q: "''CMCD=foo'' \<noteq> []" by simp
  have "''http://a/b?x=offline:1'' = ''http://a/b?x='' @ ''offline:'' @ ''1''" by simp
  then have ex: "\<exists>pre post. ''http://a/b?x=offline:1'' = pre @ ''offline:'' @ post" by blast
  have s: "\<not> offline_scheme ''http://a/b?x=offline:1''" by (simp add: offline_scheme_def)
  from appendQueryToUri_offline_anywhere [OF q ex] q ex s show ?thesis by blast
qed

subsection \<open>The serializer\<close>

text \<open>
  C1 (the code falls short of the claim): a string value under a key other than
  \<^verbatim>\<open>ot\<close>, \<^verbatim>\<open>sf\<close>, \<^verbatim>\<open>st\<close> is put between double quotes, but a double quote inside
  it is replaced by itself and so stands unescaped in the output:
  \<^verbatim>\<open>serialize({cid: 'a"b'})\<close> is \<^verbatim>\<open>cid="a"b"\<close>.
\<close>

theorem serialize_quote_unescaped:
  \<open>serialize [(''cid'', JStr ''a"b'')] = ''cid="a"b"''\<close>
  by (simp add: serialize_def serialize_results_def object_keys_def get_def isValid_def
      serialize_pair_def apply_formatter_def formatters_def replace_all_def dquote_def)

lemma serialize_loop_filter:
  "serialize_loop data keys =
     map (\<lambda>k. serialize_pair k (get data k))
       (filter (\<lambda>k. isValid (get data k)
                  \<and> \<not> (k = ''v'' \<and> get data k = JNum (Fin 1))
                  \<and> \<not> (k = ''pr'' \<and> get data k = JNum (Fin 1))) keys)"
  by (induction keys) (auto simp: Let_def)

text \<open>
  C5: the tokens of the output are those of the keys, in sorted order, whose value is not
  NaN, not null, not undefined (an absent key reads as undefined), not the empty string and
  not \<^verbatim>\<open>false\<close>, without the key \<^verbatim>\<open>v\<close> when its value is 1 and without the key
  \<^verbatim>\<open>pr\<close> when its value is 1; and \<^verbatim>\<open>serialize({v:1, pr:1, br:500})\<close> is
  \<^verbatim>\<open>br=500\<close>.
\<close>

theorem serialize_validity:
  "serialize_results data =
     map (\<lambda>k. serialize_pair k (get data k))
       (filter (\<lambda>k. get data k \<noteq> JNum NaN \<and> get data k \<noteq> JNull \<and> get data k \<noteq> JUndefined
                  \<and> get data k \<noteq> JStr [] \<and> get data k \<noteq> JBool False
                  \<and> \<not> (k = ''v'' \<and> get data k = JNum (Fin 1))
                  \<and> \<not> (k = ''pr'' \<and> get data k = JNum (Fin 1)))
          (sort (object_keys data)))
   \<and> serialize data = join '','' (serialize_results data)
   \<and> serialize [(''v'', JNum (Fin 1)), (''pr'', JNum (Fin 1)), (''br'', JNum (Fin 500))]
       = ''br=500''"
proof -
  have "(\<lambda>k. isValid (get data k)
                  \<and> \<not> (k = ''v'' \<and> get data k = JNum (Fin 1))
                  \<and> \<not> (k = ''pr'' \<and> get data k = JNum (Fin 1)))
      = (\<lambda>k. get data k \<noteq> JNum NaN \<and> get data k \<noteq> JNull \<and> get data k \<noteq> JUndefined
                  \<and> get data k \<noteq> JStr [] \<and> get data k \<noteq> JBool False
                  \<and> \<not> (k = ''v'' \<and> get data k = JNum (Fin 1))
                  \<and> \<not> (k = ''pr'' \<and> get data k = JNum (Fin 1)))"
    by (auto simp: isValid_def fun_eq_iff)
  then have "serialize_results data =
     map (\<lambda>k. serialize_pair k (get data k))
       (filter (\<lambda>k. get data k \<noteq> JNum NaN \<and> get data k \<noteq> JNull \<and> get data k \<noteq> JUndefined
                  \<and> get data k \<noteq> JStr [] \<and> get data k \<noteq> JBool False
                  \<and> \<not> (k = ''v'' \<and> get data k = JNum (Fin 1))
                  \<and> \<not> (k = ''pr'' \<and> get data k = JNum (Fin 1)))
          (sort (object_keys data)))"
    by (simp only: serialize_results_def serialize_loop_filter)
  moreover have "serialize data = join '','' (serialize_results data)"
    by (rule serialize_def)
  moreover have "serialize [(''v'', JNum (Fin 1)), (''pr'', JNum (Fin 1)), (''br'', JNum (Fin 500))]
       = ''br=500''"
    by code_simp
  ultimately show ?thesis by blast
qed

lemma apply_formatter_bool:
  "Data_typedef key (JBool b) \<Longrightarrow> apply_formatter key (JBool b) = JBool b"
  by (auto simp: Data_typedef_def apply_formatter_def formatters_def split: if_splits)

lemma apply_formatter_num:
  "Data_typedef key (JNum n) \<Longrightarrow>
     apply_formatter key (JNum n) =
       JNum (if key \<in> set [''br'', ''d'', ''tb''] then math_round n
             else if key \<in> set [''bl'', ''dl'', ''mtp'', ''rtp'']
             then num_mul (math_round (num_div n (Fin 100))) (Fin 100)
             else n)"
  by (auto simp: Data_typedef_def apply_formatter_def formatters_def toRounded_def toHundred_def
      split: if_splits)

lemma serialize_pair_token:
  "serialize_pair ''ot'' (JStr s) = ''ot='' @ s"
  "serialize_pair ''sf'' (JStr s) = ''sf='' @ s"
  "serialize_pair ''st'' (JStr s) = ''st='' @ s"
  by (simp_all add: serialize_pair_def apply_formatter_def formatters_def)

lemma join_append:
  "xs \<noteq> [] \<Longrightarrow> ys \<noteq> [] \<Longrightarrow> join sep (xs @ ys) = join sep xs @ sep @ join sep ys"
proof (induction sep xs rule: join.induct)
  case (1 sep)
  then show ?case by simp
next
  case (2 sep x)
  then show ?case by (cases ys) simp_all
next
  case (3 sep x y ys)
  then show ?case by simp
qed

text \<open>
  C6: on a payload typed as the \<^verbatim>\<open>Data\<close> typedef, \<^verbatim>\<open>true\<close> is rendered as the bare
  key; a value of \<^verbatim>\<open>ot\<close>, \<^verbatim>\<open>sf\<close> or \<^verbatim>\<open>st\<close> as \<^verbatim>\<open>key=value\<close> without quotes; a
  number as \<^verbatim>\<open>key=value\<close>, the value rounded as its key asks; the tokens are joined by a
  comma and nothing else; and \<^verbatim>\<open>serialize({ot:"v", su:true})\<close> is \<^verbatim>\<open>ot=v,su\<close>.
\<close>

theorem serialize_token_formats:
  "(Data_typedef key (JBool True) \<longrightarrow> serialize_pair key (JBool True) = key)
   \<and> serialize_pair ''ot'' (JStr s) = ''ot='' @ s
   \<and> serialize_pair ''sf'' (JStr s) = ''sf='' @ s
   \<and> serialize_pair ''st'' (JStr s) = ''st='' @ s
   \<and> (Data_typedef key (JNum n) \<longrightarrow>
        serialize_pair key (JNum n) =
          key @ ''='' @
          number_to_string
            (if key \<in> set [''br'', ''d'', ''tb''] then math_round n
             else if key \<in> set [''bl'', ''dl'', ''mtp'', ''rtp'']
             then num_mul (math_round (num_div n (Fin 100))) (Fin 100)
             else n))
   \<and> serialize data = join '','' (serialize_results data)
   \<and> (tokens \<noteq> [] \<and> rest \<noteq> [] \<longrightarrow>
        join '','' (tokens @ rest) = join '','' tokens @ '','' @ join '','' rest)
   \<and> serialize [(''ot'', JStr ''v''), (''su'', JBool True)] = ''ot=v,su''"
proof -
  have b: "Data_typedef key (JBool True) \<longrightarrow> serialize_pair key (JBool True) = key"
    by (simp add: serialize_pair_def apply_formatter_bool)
  have n: "Data_typedef key (JNum n) \<longrightarrow>
        serialize_pair key (JNum n) =
          key @ ''='' @
          number_to_string
            (if key \<in> set [''br'', ''d'', ''tb''] then math_round n
             else if key \<in> set [''bl'', ''dl'', ''mtp'', ''rtp'']
             then num_mul (math_round (num_div n (Fin 100))) (Fin 100)
             else n)"
  proof
    assume t: "Data_typedef key (JNum n)"
    show "serialize_pair key (JNum n) =
          key @ ''='' @
          number_to_string
            (if key \<in> set [''br'', ''d'', ''tb''] then math_round n
             else if key \<in> set [''bl'', ''dl'', ''mtp'', ''rtp'']
             then num_mul (math_round (num_div n (Fin 100))) (Fin 100)
             else n)"
      unfolding serialize_pair_def apply_formatter_num [OF t] by (simp add: Let_def)
  qed
  have j: "tokens \<noteq> [] \<and> rest \<noteq> [] \<longrightarrow>
        join '','' (tokens @ rest) = join '','' tokens @ '','' @ join '','' rest"
    using join_append [of tokens rest "'',''"] by blast
  have e: "serialize [(''ot'', JStr ''v''), (''su'', JBool True)] = ''ot=v,su''"
    by code_simp
  from b n j e serialize_pair_token [of s] serialize_def [of data] show ?thesis by blast
qed

theorem serialize_token_formats_witness:
  "Data_typedef ''su'' (JBool True) \<and> serialize_pair ''su'' (JBool True) = ''su''
   \<and> Data_typedef ''mtp'' (JNum (Fin 1234)) \<and> serialize_pair ''mtp'' (JNum (Fin 1234)) = ''mtp=1200''
   \<and> join '','' ([''ot=v''] @ [''su'']) = ''ot=v,su''"
proof -
  have t1: "Data_typedef ''su'' (JBool True)" by (simp add: Data_typedef_def)
  have t2: "Data_typedef ''mtp'' (JNum (Fin 1234))" by (simp add: Data_typedef_def)
  have v: "number_to_string (num_mul (math_round (num_div (Fin 1234) (Fin 100))) (Fin 100)) = ''1200''"
    by code_simp
  have "serialize_pair ''su'' (JBool True) = ''su''"
    using serialize_token_formats [where key = "''su''"] t1 by blast
  moreover have "serialize_pair ''mtp'' (JNum (Fin 1234)) = ''mtp=1200''"
    using serialize_token_formats [where key = "''mtp''" and n = "Fin 1234"] t2 v by simp
  moreover have "join '','' ([''ot=v''] @ [''su'']) = ''ot=v,su''"
    using serialize_token_formats [where tokens = "[''ot=v'']" and rest = "[''su'']"] by simp
  ultimately show ?thesis using t1 t2 by blast
qed

lemma token_key_append: "CHR ''='' \<notin> set k \<Longrightarrow> token_key (k @ CHR ''='' # rest) = k"
  by (simp add: token_key_def takeWhile_append)

lemma token_key_self: "CHR ''='' \<notin> set k \<Longrightarrow> token_key k = k"
  by (auto simp: token_key_def takeWhile_eq_all_conv)

lemma token_key_serialize_pair:
  "CHR ''='' \<notin> set k \<Longrightarrow> token_key (serialize_pair k v) = k"
  by (auto simp: serialize_pair_def Let_def token_key_append token_key_self split: jsval.splits)

lemma map_token_key_loop:
  "\<forall>k \<in> set keys. CHR ''='' \<notin> set k \<Longrightarrow>
     map token_key (serialize_loop data keys) =
       filter (\<lambda>k. isValid (get data k)
                  \<and> \<not> (k = ''v'' \<and> get data k = JNum (Fin 1))
                  \<and> \<not> (k = ''pr'' \<and> get data k = JNum (Fin 1))) keys"
  by (induction keys) (auto simp: Let_def token_key_serialize_pair)

lemma get_cong_mset:
  assumes "distinct (map fst data)" and "mset data' = mset data"
  shows "get data' = get data"
proof -
  from assms(2) have "mset (map fst data') = mset (map fst data)" by simp
  with assms(1) have d: "distinct (map fst data')" by (metis mset_eq_imp_distinct_iff)
  from assms(2) have "set data' = set data" by (rule mset_eq_setD)
  with assms(1) d have "map_of data' = map_of data" by (simp add: map_of_inject_set)
  then show ?thesis by (simp add: get_def fun_eq_iff)
qed

lemma serialize_loop_cong: "get data' = get data \<Longrightarrow> serialize_loop data' keys = serialize_loop data keys"
  by (simp add: serialize_loop_filter)

lemma sort_keys_mset:
  assumes "mset data' = mset data"
  shows "sort (object_keys data') = sort (object_keys data)"
proof -
  from assms have "mset (map fst data') = mset (map fst data)" by simp
  then show ?thesis unfolding object_keys_def
    by (intro properties_for_sort) simp_all
qed

lemma sorted_filter_id: "sorted xs \<Longrightarrow> sorted (filter P xs)"
  using sorted_filter [of "\<lambda>x. x" xs P] by simp

lemma sorted_token_keys:
  assumes "\<forall>k \<in> set (object_keys data). CHR ''='' \<notin> set k"
  shows "sorted (map token_key (serialize_results data))"
proof -
  from assms have "\<forall>k \<in> set (sort (object_keys data)). CHR ''='' \<notin> set k" by simp
  then have "map token_key (serialize_results data) =
       filter (\<lambda>k. isValid (get data k)
                  \<and> \<not> (k = ''v'' \<and> get data k = JNum (Fin 1))
                  \<and> \<not> (k = ''pr'' \<and> get data k = JNum (Fin 1))) (sort (object_keys data))"
    unfolding serialize_results_def by (rule map_token_key_loop)
  then show ?thesis by (simp only: sorted_filter_id sorted_sort)
qed

lemma serialize_order_independent:
  assumes "distinct (object_keys data)" and "mset data' = mset data"
  shows "serialize data' = serialize data"
proof -
  from assms(1) have "distinct (map fst data)" by (simp add: object_keys_def)
  then have g: "get data' = get data" using assms(2) by (rule get_cong_mset)
  from assms(2) have "sort (object_keys data') = sort (object_keys data)" by (rule sort_keys_mset)
  then show "serialize data' = serialize data"
    using serialize_loop_cong [OF g, of "sort (object_keys data)"]
    by (simp add: serialize_def serialize_results_def)
qed

text \<open>
  C4: the keys of the output tokens are in ascending lexicographic order (keys are read
  off the tokens, so they must not contain \<^verbatim>\<open>=\<close>), and the output does not depend on
  the order in which the payload's keys were inserted.
\<close>

theorem serialize_keys_sorted:
  "(list_all (\<lambda>k. CHR ''='' \<notin> set k) (object_keys data) \<longrightarrow>
      sorted (map token_key (serialize_results data)))
   \<and> (distinct (object_keys data) \<and> mset data' = mset data \<longrightarrow>
        serialize data' = serialize data)"
  using sorted_token_keys [of data] serialize_order_independent [of data data']
  by (simp add: list_all_iff)

theorem serialize_keys_sorted_witness:
  "list_all (\<lambda>k. CHR ''='' \<notin> set k)
     (object_keys [(''su'', JBool True), (''ot'', JStr ''v''), (''br'', JNum (Fin 500))])
   \<and> map token_key
        (serialize_results [(''su'', JBool True), (''ot'', JStr ''v''), (''br'', JNum (Fin 500))])
       = [''br'', ''ot'', ''su'']
   \<and> sorted (map token_key
        (serialize_results [(''su'', JBool True), (''ot'', JStr ''v''), (''br'', JNum (Fin 500))]))
   \<and> distinct (object_keys [(''su'', JBool True), (''ot'', JStr ''v''), (''br'', JNum (Fin 500))])
   \<and> mset [(''br'', JNum (Fin 500)), (''su'', JBool True), (''ot'', JStr ''v'')]
       = mset [(''su'', JBool True), (''ot'', JStr ''v''), (''br'', JNum (Fin 500))]
   \<and> serialize [(''br'', JNum (Fin 500)), (''su'', JBool True), (''ot'', JStr ''v'')]
       = serialize [(''su'', JBool True), (''ot'', JStr ''v''), (''br'', JNum (Fin 500))]
   \<and> serialize [(''su'', JBool True), (''ot'', JStr ''v''), (''br'', JNum (Fin 500))]
       = ''br=500,ot=v,su''"
proof -
  let ?d = "[(''su'', JBool True), (''ot'', JStr ''v''), (''br'', JNum (Fin 500))]"
  let ?d' = "[(''br'', JNum (Fin 500)), (''su'', JBool True), (''ot'', JStr ''v'')]"
  have h: "list_all (\<lambda>k. CHR ''='' \<notin> set k) (object_keys ?d)"
    by (simp add: object_keys_def)
  have dd: "distinct (object_keys ?d)" by (simp add: object_keys_def)
  have m: "mset ?d' = mset ?d" by (simp add: add_mset_commute)
  have k: "map token_key (serialize_results ?d) = [''br'', ''ot'', ''su'']" by code_simp
  have v: "serialize ?d = ''br=500,ot=v,su''" by code_simp
  have s: "sorted (map token_key (serialize_results ?d))"
    using serialize_keys_sorted [of ?d ?d', THEN conjunct1, THEN mp, OF h] .
  have o: "serialize ?d' = serialize ?d"
    using serialize_keys_sorted [of ?d ?d', THEN conjunct2, THEN mp, OF conjI [OF dd m]] .
  show ?thesis
    by (intro conjI) (rule h k s dd m o v)+
qed

subsection \<open>The buffering state and the one-shot starvation flag\<close>

lemma setBuffering_starved:
  "starved' (setBuffering m b) = (starved' m \<or> (b \<and> playbackStarted' m))"
  by (cases b) (auto simp: setBuffering_def Let_def)

lemma setBuffering_playbackStarted:
  "playbackStarted' (setBuffering m b) = (playbackStarted' m \<or> b = False)"
  by (cases b) (auto simp: setBuffering_def Let_def)

lemma setBuffering_buffering: "buffering' (setBuffering m b) = b"
  by (simp add: setBuffering_def Let_def)

lemma setBuffering_config: "config' (setBuffering m b) = config' m"
  by (simp add: setBuffering_def Let_def)

lemma setBuffering_player: "playerInterface' (setBuffering m b) = playerInterface' m"
  by (simp add: setBuffering_def Let_def)

lemma foldl_setBuffering_starved:
  "starved' (foldl setBuffering m bs) \<longleftrightarrow>
     starved' m \<or> (\<exists>pre post. bs = pre @ True # post \<and> (playbackStarted' m \<or> False \<in> set pre))"
proof (induction bs arbitrary: m)
  case Nil
  then show ?case by simp
next
  case (Cons b bs)
  have "(\<exists>pre post. b # bs = pre @ True # post \<and> (playbackStarted' m \<or> False \<in> set pre))
      \<longleftrightarrow> (b \<and> playbackStarted' m)
          \<or> (\<exists>pre post. bs = pre @ True # post \<and> (playbackStarted' m \<or> b = False \<or> False \<in> set pre))"
    (is "?L \<longleftrightarrow> ?R")
  proof
    assume ?L
    then obtain pre post where e: "b # bs = pre @ True # post"
      and s: "playbackStarted' m \<or> False \<in> set pre" by blast
    show ?R
    proof (cases pre)
      case Nil
      with e s show ?thesis by simp
    next
      case (Cons x pre')
      with e s have "bs = pre' @ True # post" and "x = b"
        and "playbackStarted' m \<or> b = False \<or> False \<in> set pre'" by auto
      then show ?thesis by blast
    qed
  next
    assume ?R
    then show ?L
    proof
      assume "b \<and> playbackStarted' m"
      then have "b # bs = [] @ True # bs \<and> (playbackStarted' m \<or> False \<in> set [])" by simp
      then show ?L by blast
    next
      assume "\<exists>pre post. bs = pre @ True # post \<and> (playbackStarted' m \<or> b = False \<or> False \<in> set pre)"
      then obtain pre post where "bs = pre @ True # post"
        and "playbackStarted' m \<or> b = False \<or> False \<in> set pre" by blast
      then have "b # bs = (b # pre) @ True # post \<and> (playbackStarted' m \<or> False \<in> set (b # pre))"
        by auto
      then show ?L by blast
    qed
  qed
  then show ?case
    by (auto simp: Cons.IH setBuffering_starved setBuffering_playbackStarted)
qed


lemma get_update: "get (AList.update k v d) k' = (if k' = k then v else get d k')"
  by (simp add: get_def update_conv')

lemma get_createData':
  "get (object_assign d (createData' m)) k =
     (if k = ''v'' then JNum Version
      else if k = ''sf'' then (case sf' m of None \<Rightarrow> JUndefined | Some f \<Rightarrow> JStr f)
      else if k = ''sid'' then JStr (sid' m)
      else if k = ''cid'' then JStr (contentId (config' m))
      else if k = ''mtp'' then JNum (num_div (getBandwidthEstimate (playerInterface' m)) (Fin 1000))
      else get d k)"
  by (simp add: object_assign_def createData'_def get_update)

lemma isVideo_update: "k \<noteq> ''ot'' \<Longrightarrow> isVideo (AList.update k v d) = isVideo d"
  by (simp add: isVideo_def get_update)

lemma isVideo_createData': "isVideo (object_assign d (createData' m)) = isVideo d"
  by (simp add: isVideo_def get_createData')

lemma apply'_manager:
  "fst (apply' m request data uh) =
     (if enabled (config' m) \<and> starved' m \<and> isVideo data then m\<lparr>starved' := False\<rparr> else m)"
  by (cases "enabled (config' m)"; cases "starved' m"; cases "isVideo data"; cases uh)
     (simp_all add: apply'_def Let_def isVideo_update isVideo_createData')

lemma apply'_payload_bs:
  "get (snd (snd (apply' m request data uh))) ''bs'' =
     (if enabled (config' m) \<and> starved' m \<and> isVideo data then JBool True else get data ''bs'')"
  by (cases "enabled (config' m)"; cases "starved' m"; cases "isVideo data"; cases uh)
     (simp_all add: apply'_def Let_def isVideo_update isVideo_createData' get_update get_createData')

lemma apply'_payload_su:
  "enabled (config' m) \<Longrightarrow> starved' m \<Longrightarrow> isVideo data \<Longrightarrow>
     get (snd (snd (apply' m request data uh))) ''su'' = JBool True"
  by (cases uh)
     (simp_all add: apply'_def Let_def isVideo_update isVideo_createData' get_update get_createData')

lemma applySegmentData_manager:
  "fst (applySegmentData m request si) =
     (case segment_data m si of
        Inl e \<Rightarrow> m
      | Inr d \<Rightarrow> (if enabled (config' m) \<and> starved' m \<and> isVideo d
                  then m\<lparr>starved' := False\<rparr> else m))"
  by (simp add: applySegmentData_def split_beta apply'_manager split: sum.splits)

lemma video_segment_data:
  "segment_data starved_manager video_segment =
     Inr [(''d'', JNum (Fin 4000)), (''st'', JStr ''v''), (''ot'', JStr ''v''),
          (''bl'', JNum (Fin 2000)), (''br'', JNum (Fin (1234567 / 1000))), (''tb'', JNum NaN)]"
  by code_simp

lemma starved_manager_fields:
  "enabled (config' starved_manager)" "starved' starved_manager"
  "playbackStarted' starved_manager" "buffering' starved_manager"
  by (simp_all add: starved_manager_def example_manager_def constructor_def setBuffering_def
      example_config_def Let_def)

text \<open>
  C2, as the spec states it, fails: \<^verbatim>\<open>setBuffering\<close> does not look at the previous
  buffering state. After \<^verbatim>\<open>setBuffering(false)\<close>, \<^verbatim>\<open>setBuffering(true)\<close> and a video
  segment request that consumes the flag, the manager is still buffering and no longer
  starved; a second \<^verbatim>\<open>setBuffering(true)\<close>, with no \<^verbatim>\<open>setBuffering(false)\<close> in between,
  sets \<open>starved\<close> again.
\<close>

theorem setBuffering_repeat_counterexample:
  "buffering' (fst (applySegmentData
       (setBuffering (setBuffering example_manager False) True) example_request video_segment))
   \<and> \<not> starved' (fst (applySegmentData
       (setBuffering (setBuffering example_manager False) True) example_request video_segment))
   \<and> starved' (setBuffering (fst (applySegmentData
       (setBuffering (setBuffering example_manager False) True) example_request video_segment))
         True)"
proof -
  have v: "isVideo [(''d'', JNum (Fin 4000)), (''st'', JStr ''v''), (''ot'', JStr ''v''),
          (''bl'', JNum (Fin 2000)), (''br'', JNum (Fin (1234567 / 1000))), (''tb'', JNum NaN)]"
    by (simp add: isVideo_def get_def VIDEO_def)
  have "fst (applySegmentData starved_manager example_request video_segment)
      = starved_manager\<lparr>starved' := False\<rparr>"
    by (simp only: applySegmentData_manager video_segment_data sum.case v starved_manager_fields
        simp_thms if_True)
  then show ?thesis
    unfolding starved_manager_def [symmetric]
    by (simp add: setBuffering_starved starved_manager_fields)
qed

text \<open>
  C2, amended: a call \<^verbatim>\<open>setBuffering(b)\<close> leaves \<open>starved\<close> true if it was true and
  otherwise sets it exactly when \<open>b\<close> is true and playback has started, whatever the
  previous buffering state; playback counts as started from the first call with
  \<^verbatim>\<open>false\<close>; \<open>buffering\<close> becomes \<open>b\<close>. So after a sequence of calls \<open>starved\<close> is true
  iff it was true before or some call with \<^verbatim>\<open>true\<close> came when playback had started. In
  particular, once \<open>starved\<close> has been cleared while the manager is buffering, a second
  \<^verbatim>\<open>setBuffering(true)\<close> sets it again.
\<close>

theorem setBuffering_level_triggered:
  "starved' (setBuffering m b) = (starved' m \<or> (b \<and> playbackStarted' m))
   \<and> playbackStarted' (setBuffering m b) = (playbackStarted' m \<or> b = False)
   \<and> buffering' (setBuffering m b) = b
   \<and> (starved' (foldl setBuffering m bs) \<longleftrightarrow>
        starved' m
        \<or> (\<exists>pre post. bs = pre @ True # post \<and> (playbackStarted' m \<or> False \<in> set pre)))
   \<and> starved' (setBuffering (m\<lparr>playbackStarted' := True, buffering' := True, starved' := False\<rparr>) True)"
  using setBuffering_playbackStarted [of m b] setBuffering_buffering [of m b]
    foldl_setBuffering_starved [of m bs]
  by (simp add: setBuffering_starved)

lemma foldl_setBuffering_quiet:
  "True \<notin> set bs \<Longrightarrow> starved' (foldl setBuffering m bs) = starved' m"
proof -
  assume a: "True \<notin> set bs"
  have "\<not> (\<exists>pre post. bs = pre @ True # post \<and> (playbackStarted' m \<or> False \<in> set pre))"
  proof
    assume "\<exists>pre post. bs = pre @ True # post \<and> (playbackStarted' m \<or> False \<in> set pre)"
    then obtain pre post where "bs = pre @ True # post" by blast
    then have "True \<in> set bs" by simp
    with a show False by contradiction
  qed
  then show ?thesis by (simp only: foldl_setBuffering_starved simp_thms)
qed

text \<open>
  C3: when \<^verbatim>\<open>apply_\<close> runs with the feature enabled, \<open>starved\<close> true and an object type
  of video or muxed, the payload it builds has \<^verbatim>\<open>bs\<close> and \<^verbatim>\<open>su\<close> true and \<open>starved\<close>
  is cleared; \<open>starved\<close> stays cleared over any calls of \<^verbatim>\<open>setBuffering(false)\<close>, and the
  next \<^verbatim>\<open>apply_\<close> on a fresh payload (one without \<^verbatim>\<open>bs\<close>, as every entry point builds)
  does not set \<^verbatim>\<open>bs\<close>.
\<close>

theorem starvation_consumed_once:
  assumes "enabled (config' m)" and "starved' m" and "isVideo data"
    and "get data2 ''bs'' = JUndefined" and "True \<notin> set bs"
  shows "get (snd (snd (apply' m request data uh))) ''bs'' = JBool True
     \<and> get (snd (snd (apply' m request data uh))) ''su'' = JBool True
     \<and> \<not> starved' (fst (apply' m request data uh))
     \<and> \<not> starved' (foldl setBuffering (fst (apply' m request data uh)) bs)
     \<and> get (snd (snd (apply' (foldl setBuffering (fst (apply' m request data uh)) bs)
                request2 data2 uh2))) ''bs'' = JUndefined"
proof -
  have b: "get (snd (snd (apply' m request data uh))) ''bs'' = JBool True"
    using assms(1-3) by (simp add: apply'_payload_bs)
  have s: "get (snd (snd (apply' m request data uh))) ''su'' = JBool True"
    using assms(1-3) by (rule apply'_payload_su)
  have c: "\<not> starved' (fst (apply' m request data uh))"
    using assms(1-3) by (simp add: apply'_manager)
  have q: "\<not> starved' (foldl setBuffering (fst (apply' m request data uh)) bs)"
    using c assms(5) by (simp add: foldl_setBuffering_quiet)
  have n: "get (snd (snd (apply' (foldl setBuffering (fst (apply' m request data uh)) bs)
                request2 data2 uh2))) ''bs'' = JUndefined"
    using q assms(4) by (simp add: apply'_payload_bs)
  from b s c q n show ?thesis by (intro conjI)
qed

theorem starvation_consumed_once_witness:
  "enabled (config' starved_manager) \<and> starved' starved_manager
   \<and> isVideo [(''d'', JNum (Fin 4000)), (''ot'', JStr VIDEO)]
   \<and> get [(''d'', JNum (Fin 4000)), (''ot'', JStr VIDEO)] ''bs'' = JUndefined
   \<and> True \<notin> set [False]
   \<and> get (snd (snd (apply' starved_manager example_request
          [(''d'', JNum (Fin 4000)), (''ot'', JStr VIDEO)] True))) ''bs'' = JBool True
   \<and> get (snd (snd (apply' starved_manager example_request
          [(''d'', JNum (Fin 4000)), (''ot'', JStr VIDEO)] True))) ''su'' = JBool True
   \<and> \<not> starved' (fst (apply' starved_manager example_request
          [(''d'', JNum (Fin 4000)), (''ot'', JStr VIDEO)] True))
   \<and> get (snd (snd (apply'
          (foldl setBuffering (fst (apply' starved_manager example_request
             [(''d'', JNum (Fin 4000)), (''ot'', JStr VIDEO)] True)) [False])
          example_request [(''d'', JNum (Fin 4000)), (''ot'', JStr VIDEO)] True))) ''bs''
       = JUndefined"
proof -
  let ?d = "[(''d'', JNum (Fin 4000)), (''ot'', JStr VIDEO)]"
  have h1: "enabled (config' starved_manager)" by (rule starved_manager_fields)
  have h2: "starved' starved_manager" by (rule starved_manager_fields)
  have h3: "isVideo ?d" by (simp add: isVideo_def get_def)
  have h4: "get ?d ''bs'' = JUndefined" by (simp add: get_def)
  have h5: "True \<notin> set [False]" by simp
  note r = starvation_consumed_once [OF h1 h2 h3 h4 h5,
      of example_request True example_request True]
  from h1 h2 h3 h4 h5 r show ?thesis by (intro conjI) (elim conjE, assumption)+
qed

text \<open>
  C8: with the feature disabled every entry point returns the manager and the request (or
  the URI) it was given; \<^verbatim>\<open>applyTextData\<close> does so through the test in \<^verbatim>\<open>apply_\<close>,
  which then returns its three arguments unchanged.
\<close>

theorem disabled_leaves_input_unchanged:
  assumes "\<not> enabled (config' m)"
  shows "applyManifestData m request manifestInfo = (m, request)
     \<and> applySegmentData m request segmentInfo = (m, request)
     \<and> applyTextData m request = (m, request)
     \<and> apply' m request data uh = (m, request, data)
     \<and> appendSrcData m uri mimeType = uri
     \<and> appendTextTrackData m uri = uri"
  using assms
  by (simp add: applyManifestData_def applySegmentData_def applyTextData_def apply'_def
      appendSrcData_def appendTextTrackData_def)

theorem disabled_leaves_input_unchanged_witness:
  "\<not> enabled (config' (constructor example_player (example_config\<lparr>enabled := False\<rparr>) ''uuid''))
   \<and> applyManifestData (constructor example_player (example_config\<lparr>enabled := False\<rparr>) ''uuid'')
         example_request \<lparr>manifest_format = ''d''\<rparr>
       = (constructor example_player (example_config\<lparr>enabled := False\<rparr>) ''uuid'', example_request)
   \<and> applySegmentData (constructor example_player (example_config\<lparr>enabled := False\<rparr>) ''uuid'')
         example_request video_segment
       = (constructor example_player (example_config\<lparr>enabled := False\<rparr>) ''uuid'', example_request)
   \<and> applyTextData (constructor example_player (example_config\<lparr>enabled := False\<rparr>) ''uuid'')
         example_request
       = (constructor example_player (example_config\<lparr>enabled := False\<rparr>) ''uuid'', example_request)
   \<and> appendSrcData (constructor example_player (example_config\<lparr>enabled := False\<rparr>) ''uuid'')
         ''http://a/b.mp4'' ''video/mp4'' = ''http://a/b.mp4''
   \<and> appendTextTrackData (constructor example_player (example_config\<lparr>enabled := False\<rparr>) ''uuid'')
         ''http://a/b.vtt'' = ''http://a/b.vtt''"
proof -
  let ?m = "constructor example_player (example_config\<lparr>enabled := False\<rparr>) ''uuid''"
  have h: "\<not> enabled (config' ?m)" by (simp add: constructor_def)
  note r = disabled_leaves_input_unchanged [OF h,
      of example_request "\<lparr>manifest_format = ''d''\<rparr>" video_segment "[]" True
         "''http://a/b.mp4''" "''video/mp4''"]
  note t = disabled_leaves_input_unchanged [OF h,
      of example_request "\<lparr>manifest_format = ''d''\<rparr>" video_segment "[]" True
         "''http://a/b.vtt''" "''video/mp4''"]
  from h r t show ?thesis by (intro conjI) (elim conjE, assumption)+
qed

lemma getTopBandwidth'_empty:
  assumes "getManifest (playerInterface' m) = Some man"
    and "if type = ''text'' then textStreams man = [] else variants man = []"
  shows "getTopBandwidth' m type = Inl TypeError"
  using assms by (simp add: getTopBandwidth'_def split: if_splits)

lemma segment_data_top_error:
  assumes "getTopBandwidth' m (segment_type si) = Inl TypeError"
  shows "segment_data m si = Inl TypeError"
proof (cases "segment_data m si")
  case (Inl e)
  then show ?thesis by (cases e) simp
next
  case (Inr d)
  with assms show ?thesis
    by (simp add: segment_data_def Let_def split: sum.splits if_splits option.splits)
qed

text \<open>
  C10: when the manifest is not null and the list \<^verbatim>\<open>getTopBandwidth_\<close> reads (the text
  streams for the type \<^verbatim>\<open>text\<close>, the variants otherwise) is empty, \<^verbatim>\<open>getTopBandwidth_\<close>
  throws, no data object is built, and \<^verbatim>\<open>applySegmentData\<close> returns the manager and the
  request unchanged: no CMCD field is attached.
\<close>

theorem empty_variants_leave_request_unmodified:
  assumes "enabled (config' m)" and "getManifest (playerInterface' m) = Some man"
    and "if segment_type si = ''text'' then textStreams man = [] else variants man = []"
  shows "getTopBandwidth' m (segment_type si) = Inl TypeError
     \<and> segment_data m si = Inl TypeError
     \<and> applySegmentData m request si = (m, request)"
proof -
  have t: "getTopBandwidth' m (segment_type si) = Inl TypeError"
    using assms(2,3) by (rule getTopBandwidth'_empty)
  then have s: "segment_data m si = Inl TypeError" by (rule segment_data_top_error)
  then have "applySegmentData m request si = (m, request)"
    by (simp add: applySegmentData_def)
  with t s show ?thesis by (intro conjI)
qed

theorem empty_variants_leave_request_unmodified_witness:
  "enabled (config' (constructor
       (example_player\<lparr>getManifest := Some \<lparr>variants = [], textStreams = []\<rparr>\<rparr>)
       example_config ''uuid''))
   \<and> getManifest (playerInterface' (constructor
       (example_player\<lparr>getManifest := Some \<lparr>variants = [], textStreams = []\<rparr>\<rparr>)
       example_config ''uuid'')) = Some \<lparr>variants = [], textStreams = []\<rparr>
   \<and> segment_type video_segment \<noteq> ''text''
   \<and> variants \<lparr>variants = [], textStreams = []\<rparr> = []
   \<and> getTopBandwidth' (constructor
       (example_player\<lparr>getManifest := Some \<lparr>variants = [], textStreams = []\<rparr>\<rparr>)
       example_config ''uuid'') (segment_type video_segment) = Inl TypeError
   \<and> applySegmentData (constructor
       (example_player\<lparr>getManifest := Some \<lparr>variants = [], textStreams = []\<rparr>\<rparr>)
       example_config ''uuid'') example_request video_segment
     = (constructor
       (example_player\<lparr>getManifest := Some \<lparr>variants = [], textStreams = []\<rparr>\<rparr>)
       example_config ''uuid'', example_request)"
proof -
  let ?man = "\<lparr>variants = [], textStreams = []\<rparr>"
  let ?m = "constructor (example_player\<lparr>getManifest := Some ?man\<rparr>) example_config ''uuid''"
  have h1: "enabled (config' ?m)" by (simp add: constructor_def example_config_def)
  have h2: "getManifest (playerInterface' ?m) = Some ?man" by (simp add: constructor_def)
  have t: "segment_type video_segment \<noteq> ''text''" by (simp add: video_segment_def)
  have v: "variants ?man = []" by simp
  from t v have h3: "if segment_type video_segment = ''text'' then textStreams ?man = []
      else variants ?man = []" by simp
  note r = empty_variants_leave_request_unmodified [OF h1 h2 h3, of example_request]
  from h1 h2 t v r show ?thesis by (intro conjI) (elim conjE, assumption)+
qed

end
